theory Spec2Isabelle
  imports Main "HOL-Library.Word"
begin

unbundle bit_operations_syntax

section \<open>Data model of \<^verbatim>\<open>frontend/src/app/page.tsx\<close>\<close>

text \<open>
  The interfaces of the page, one record each. Optional members (\<^verbatim>\<open>?:\<close>) are
  \<open>option\<close>s, JavaScript numbers that hold counts are \<open>int\<close>. A member name that
  occurs in several interfaces carries the interface as a suffix (\<open>success_ingest\<close>,
  \<open>success_analysis\<close>, ...), and \<open>id\<close>, \<open>size\<close>, \<open>fix\<close> are suffixed because Isabelle owns them.
\<close>

record GitHubRepo =
  id_repo :: int
  name :: string
  full_name :: string
  description :: "string option"
  html_url :: string
  stargazers_count :: int
  forks_count :: int
  open_issues_count :: int
  owner_login :: string
  owner_avatar_url :: "string option"
  language :: "string option"
  created_at :: string
  updated_at :: string

record RepoIngestionResponse =
  success_ingest :: bool
  message_ingest :: string
  repo :: "GitHubRepo option"
  is_anchor_project :: "bool option"

record GitHubContent =
  name_content :: string
  path_content :: string
  content_type :: string
  size_content :: "int option"
  html_url_content :: string
  download_url :: "string option"
  content :: "string option"
  encoding :: "string option"
  sha :: string
  url :: string

datatype severity = low | medium | high

record CodeBug =
  bug :: string
  line :: int
  severity :: severity
  fix_bug :: string

record CodeAnalysisResponse =
  success_analysis :: bool
  message_analysis :: string
  bugs :: "CodeBug list option"

record FuzzingResponse =
  success_fuzz :: bool
  message_fuzz :: string
  errors :: "string list option"
  test_file :: "string option"
  execution_time_ms :: "int option"

record RepoContentsResponse =
  success_contents :: bool
  message_contents :: string
  contents :: "GitHubContent list option"
  file_content :: "GitHubContent option"
  repo_url :: string
  path :: string

text \<open>
  The thirteen \<^verbatim>\<open>useState\<close> cells of the component \<^verbatim>\<open>Home\<close>, with the initial
  values of their declarations. The timeout is a JavaScript number; the model takes the
  whole numbers, which a double holds exactly up to \<open>2 ^ 53\<close> in magnitude. Fractions and
  larger magnitudes typed into the field are outside the model.
\<close>

record Home =
  repoUrl :: string
  loading :: bool
  result :: "RepoIngestionResponse option"
  error :: string
  currentPath :: string
  contentsResult :: "RepoContentsResponse option"
  loadingContents :: bool
  analysisResult :: "CodeAnalysisResponse option"
  loadingAnalysis :: bool
  fuzzingResult :: "FuzzingResponse option"
  loadingFuzzing :: bool
  instructionName :: string
  timeoutSeconds :: int

definition initial :: Home where
  "initial = \<lparr> repoUrl = '''', loading = False, result = None, error = '''',
      currentPath = '''', contentsResult = None, loadingContents = False,
      analysisResult = None, loadingAnalysis = False, fuzzingResult = None,
      loadingFuzzing = False, instructionName = ''increment'', timeoutSeconds = 60 \<rparr>"

section \<open>The transport layer\<close>

text \<open>
  Every request the page sends is a POST to one of four endpoints; the value records the
  JSON body. \<^verbatim>\<open>path || undefined\<close> drops the member for the empty path.
\<close>

datatype request =
    IngestRepo string
  | RepoContents string "string option"
  | AnalyzeCode string
  | FuzzTest string string int

text \<open>
  What \<^verbatim>\<open>await fetch(...)\<close> gives back: the promise rejects with an error message
  (network failure), or it resolves to a response with a status, a body text
  (\<^verbatim>\<open>response.text()\<close>) and the outcome of parsing that text as JSON
  (\<^verbatim>\<open>response.json()\<close>, \<^verbatim>\<open>JSON.parse\<close>): the message of the SyntaxError, or the
  data.
\<close>

record 'a response =
  status :: nat
  body :: string
  parsed :: "string + 'a"

datatype 'a fetched = Rejected string | Resolved "'a response"

definition ok :: "'a response \<Rightarrow> bool" where
  "ok r = (200 \<le> status r \<and> status r \<le> 299)"

subsection \<open>JavaScript string helpers\<close>

definition or_else :: "string \<Rightarrow> string \<Rightarrow> string" where
  \<comment> \<open>\<^verbatim>\<open>a || b\<close> on strings: the empty string is falsy\<close>
  "or_else a b = (if a = [] then b else a)"

definition white_space :: "char \<Rightarrow> bool" where
  \<comment> \<open>the single-byte characters \<^verbatim>\<open>trim\<close> strips: TAB, LF, VT, FF, CR, SP, NBSP\<close>
  "white_space c = (of_char c \<in> {9, 10, 11, 12, 13, 32, 160 :: nat})"

definition trim :: "string \<Rightarrow> string" where
  "trim s = rev (dropWhile white_space (rev (dropWhile white_space s)))"

fun digit :: "nat \<Rightarrow> char" where
  "digit n = char_of (48 + n)"

function show_nat :: "nat \<Rightarrow> string" where
  "show_nat n = (if n < 10 then [digit n] else show_nat (n div 10) @ [digit (n mod 10)])"
  by pat_completeness auto
termination
  by (relation "measure id") auto

declare show_nat.simps [simp del]

text \<open>
  \<^verbatim>\<open>s.split(c)\<close> for a one-character separator: the pieces between the separators, at
  least one piece (\<^verbatim>\<open>"".split("/")\<close> is \<^verbatim>\<open>[""]\<close>). \<^verbatim>\<open>parts.join(c)\<close> puts the
  separator back between the pieces. \<^verbatim>\<open>parts.pop()\<close> drops the last element.
\<close>

fun split :: "char \<Rightarrow> string \<Rightarrow> string list" where
  "split c [] = [[]]"
| "split c (x # xs) =
     (if x = c then [] # split c xs
      else (case split c xs of
              p # ps \<Rightarrow> (x # p) # ps
            | [] \<Rightarrow> [[x]]))"

fun join :: "char \<Rightarrow> string list \<Rightarrow> string" where
  "join c [] = []"
| "join c [p] = p"
| "join c (p # q # ps) = p @ c # join c (q # ps)"

definition pop :: "'a list \<Rightarrow> 'a list" where
  "pop xs = butlast xs"

section \<open>The handlers\<close>

text \<open>
  An \<^verbatim>\<open>async\<close> handler runs in two atomic pieces on the event loop: the part up to
  \<^verbatim>\<open>await fetch\<close>, which updates the state and hands a request to the transport layer,
  and the part after it, which runs when the response arrives and sees the state of
  that moment. Each piece returns the new state and the requests it dispatched. The
  values a handler read from its closure before the \<^verbatim>\<open>await\<close> are arguments of the
  second piece.
\<close>

subsection \<open>\<^verbatim>\<open>fetchRepoContents\<close>\<close>

definition fetchRepoContents :: "string \<Rightarrow> string \<Rightarrow> Home \<Rightarrow> Home \<times> request list" where
  "fetchRepoContents repoUrl' path' s =
     (s\<lparr>loadingContents := True, error := ''''\<rparr>,
      [RepoContents repoUrl' (if path' = '''' then None else Some path')])"

text \<open>The \<^verbatim>\<open>try\<close> block after the fetch: \<open>Inl\<close> is the message of the Error thrown.\<close>

definition fetchRepoContents_try ::
  "RepoContentsResponse fetched \<Rightarrow> string + RepoContentsResponse" where
  "fetchRepoContents_try f =
     (case f of
        Rejected msg \<Rightarrow> Inl msg
      | Resolved r \<Rightarrow>
          if \<not> ok r then Inl (or_else (body r) (''Server error: '' @ show_nat (status r)))
          else if body r = '''' \<or> trim (body r) = '''' then Inl ''Empty response from server''
          else (case parsed r of
                  Inl jsonError \<Rightarrow> Inl ''Invalid response format from server''
                | Inr data \<Rightarrow> Inr data))"

definition fetchRepoContents_done ::
  "string \<Rightarrow> string \<Rightarrow> RepoContentsResponse fetched \<Rightarrow> Home \<Rightarrow> Home" where
  "fetchRepoContents_done repoUrl' path' f s =
     (case fetchRepoContents_try f of
        Inr data \<Rightarrow>
          s\<lparr>contentsResult := Some data, currentPath := path', loadingContents := False\<rparr>
      | Inl message \<Rightarrow>
          s\<lparr>error := or_else message ''An error occurred while fetching contents'',
            contentsResult := Some \<lparr> success_contents = False,
              message_contents = or_else message ''Failed to fetch repository contents'',
              contents = None, file_content = None, repo_url = repoUrl', path = path' \<rparr>,
            loadingContents := False\<rparr>)"

subsection \<open>\<^verbatim>\<open>navigateToPath\<close> and \<^verbatim>\<open>navigateUp\<close>\<close>

definition navigateToPath :: "string \<Rightarrow> Home \<Rightarrow> Home \<times> request list" where
  "navigateToPath path' s = fetchRepoContents (repoUrl s) path' s"

definition parentPath :: "string \<Rightarrow> string" where
  "parentPath p = join CHR ''/'' (pop (split CHR ''/'' p))"

definition navigateUp :: "Home \<Rightarrow> Home \<times> request list" where
  "navigateUp s =
     (if currentPath s = '''' then (s, [])
      else fetchRepoContents (repoUrl s) (parentPath (currentPath s)) s)"

subsection \<open>\<^verbatim>\<open>handleSubmit\<close>\<close>

text \<open>
  The first piece clears five cells and posts the URL of the form. The second piece
  stores the parsed body before it looks at the status, and starts the first listing
  when the body says \<^verbatim>\<open>success\<close> and \<^verbatim>\<open>is_anchor_project\<close>. \<open>repoUrl'\<close> is the URL
  the handler closed over when the form was submitted.
\<close>

definition handleSubmit :: "Home \<Rightarrow> Home \<times> request list" where
  "handleSubmit s =
     (s\<lparr>loading := True, error := '''', result := None, contentsResult := None,
        currentPath := '''', analysisResult := None\<rparr>,
      [IngestRepo (repoUrl s)])"

definition handleSubmit_done ::
  "string \<Rightarrow> RepoIngestionResponse fetched \<Rightarrow> Home \<Rightarrow> Home \<times> request list" where
  "handleSubmit_done repoUrl' f s =
     (case f of
        Rejected msg \<Rightarrow>
          (s\<lparr>error := or_else msg ''An error occurred'', loading := False\<rparr>, [])
      | Resolved r \<Rightarrow>
          (case parsed r of
             Inl msg \<Rightarrow>
               (s\<lparr>error := or_else msg ''An error occurred'', loading := False\<rparr>, [])
           | Inr data \<Rightarrow>
               if \<not> ok r then
                 (s\<lparr>result := Some data,
                    error := or_else (or_else (message_ingest data)
                               ''Failed to ingest repository'') ''An error occurred'',
                    loading := False\<rparr>, [])
               else if success_ingest data \<and> is_anchor_project data = Some True then
                 (case fetchRepoContents repoUrl' '''' (s\<lparr>result := Some data\<rparr>) of
                    (s', reqs) \<Rightarrow> (s'\<lparr>loading := False\<rparr>, reqs))
               else (s\<lparr>result := Some data, loading := False\<rparr>, [])))"

subsection \<open>\<^verbatim>\<open>analyzeCode\<close>\<close>

definition analyzeCode :: "Home \<Rightarrow> Home \<times> request list" where
  "analyzeCode s =
     (if repoUrl s = '''' then (s, [])
      else (s\<lparr>loadingAnalysis := True, error := '''', analysisResult := None\<rparr>,
            [AnalyzeCode (repoUrl s)]))"

definition analyzeCode_try ::
  "CodeAnalysisResponse fetched \<Rightarrow> string + CodeAnalysisResponse" where
  "analyzeCode_try f =
     (case f of
        Rejected msg \<Rightarrow> Inl msg
      | Resolved r \<Rightarrow>
          if \<not> ok r then Inl (or_else (body r) (''Server error: '' @ show_nat (status r)))
          else if body r = '''' \<or> trim (body r) = '''' then Inl ''Empty response from server''
          else (case parsed r of
                  Inl jsonError \<Rightarrow> Inl ''Invalid response format from server''
                | Inr data \<Rightarrow> Inr data))"

definition analyzeCode_done :: "CodeAnalysisResponse fetched \<Rightarrow> Home \<Rightarrow> Home" where
  "analyzeCode_done f s =
     (case analyzeCode_try f of
        Inr data \<Rightarrow> s\<lparr>analysisResult := Some data, loadingAnalysis := False\<rparr>
      | Inl message \<Rightarrow>
          s\<lparr>error := or_else message ''An error occurred during code analysis'',
            analysisResult := Some \<lparr> success_analysis = False,
              message_analysis = or_else message ''Failed to analyze code'',
              bugs = Some [] \<rparr>,
            loadingAnalysis := False\<rparr>)"

subsection \<open>\<^verbatim>\<open>runFuzzingTests\<close>\<close>

definition runFuzzingTests :: "Home \<Rightarrow> Home \<times> request list" where
  "runFuzzingTests s =
     (if repoUrl s = '''' then (s, [])
      else (s\<lparr>loadingFuzzing := True, fuzzingResult := None, error := ''''\<rparr>,
            [FuzzTest (repoUrl s) (instructionName s) (timeoutSeconds s)]))"

definition runFuzzingTests_try :: "FuzzingResponse fetched \<Rightarrow> string + FuzzingResponse" where
  "runFuzzingTests_try f =
     (case f of
        Rejected msg \<Rightarrow> Inl msg
      | Resolved r \<Rightarrow>
          if \<not> ok r then Inl (or_else (body r) ''Failed to run fuzzing tests'')
          else parsed r)"

definition runFuzzingTests_done :: "FuzzingResponse fetched \<Rightarrow> Home \<Rightarrow> Home" where
  "runFuzzingTests_done f s =
     (case runFuzzingTests_try f of
        Inr data \<Rightarrow> s\<lparr>fuzzingResult := Some data, loadingFuzzing := False\<rparr>
      | Inl message \<Rightarrow>
          s\<lparr>error := or_else message ''Failed to run fuzzing tests'',
            loadingFuzzing := False\<rparr>)"

section \<open>What the component renders\<close>

text \<open>
  The JSX that \<^verbatim>\<open>Home\<close> returns, as the data it shows and the controls it offers;
  class names, icons and the formatting of sizes and times are left out. The repository
  card reads \<^verbatim>\<open>result.repo.name\<close>, so rendering throws when \<^verbatim>\<open>result\<close> is set and
  has no \<^verbatim>\<open>repo\<close>: then there is no page (\<open>None\<close>).
\<close>

record actions_view =
  analyze_disabled :: bool
  instruction_value :: string
  timeout_value :: int
  fuzz_disabled :: bool

record card_view =
  card_name :: string
  card_description :: string
  card_stars :: int
  card_forks :: int
  card_language :: "string option"
  card_badge :: "bool option"
  card_actions :: "actions_view option"
  card_link :: string

record fuzz_view =
  fuzz_passed :: bool
  fuzz_message :: string
  fuzz_time :: "int option"
  fuzz_issues :: "string list"
  fuzz_file :: "string option"

datatype analysis_body = Bugs "CodeBug list" | No_security_issues_found

record listing_view =
  up_disabled :: bool
  shown_path :: string
  items :: "GitHubContent list"

record file_view =
  file_name :: string
  file_size :: "int option"
  file_text :: "string option"

record page =
  submit_disabled :: bool
  banner :: "string option"
  card :: "card_view option"
  spinner_analysis :: bool
  spinner_fuzzing :: bool
  fuzz_panel :: "fuzz_view option"
  analysis_panel :: "(string \<times> analysis_body) option"
  spinner_contents :: bool
  listing :: "listing_view option"
  file_panel :: "file_view option"

definition truthy :: "string option \<Rightarrow> string option" where
  \<comment> \<open>an optional string in a condition: absent and empty are both falsy\<close>
  "truthy x = (case x of None \<Rightarrow> None | Some v \<Rightarrow> if v = '''' then None else Some v)"

definition render_card :: "Home \<Rightarrow> RepoIngestionResponse \<Rightarrow> GitHubRepo \<Rightarrow> card_view" where
  "render_card s r g =
     \<lparr> card_name = name g,
       card_description = (case truthy (description g) of None \<Rightarrow> ''No description'' | Some d \<Rightarrow> d),
       card_stars = stargazers_count g,
       card_forks = forks_count g,
       card_language = truthy (language g),
       card_badge = is_anchor_project r,
       card_actions =
         (if is_anchor_project r = Some True
          then Some \<lparr> analyze_disabled = loadingAnalysis s,
                      instruction_value = instructionName s,
                      timeout_value = timeoutSeconds s,
                      fuzz_disabled = loadingFuzzing s \<rparr>
          else None),
       card_link = html_url g \<rparr>"

definition render_fuzzing :: "FuzzingResponse \<Rightarrow> fuzz_view" where
  "render_fuzzing r =
     \<lparr> fuzz_passed = success_fuzz r,
       fuzz_message = message_fuzz r,
       fuzz_time = (case execution_time_ms r of None \<Rightarrow> None
                    | Some t \<Rightarrow> if t = 0 then None else Some t),
       fuzz_issues = (case errors r of None \<Rightarrow> [] | Some es \<Rightarrow> es),
       fuzz_file = truthy (test_file r) \<rparr>"

definition render_analysis :: "CodeAnalysisResponse \<Rightarrow> string \<times> analysis_body" where
  "render_analysis r =
     (message_analysis r,
      (case bugs r of
         None \<Rightarrow> No_security_issues_found
       | Some bs \<Rightarrow> if length bs > 0 then Bugs bs else No_security_issues_found))"

definition render_listing :: "Home \<Rightarrow> RepoContentsResponse \<Rightarrow> listing_view option" where
  "render_listing s r =
     (case contents r of
        None \<Rightarrow> None
      | Some cs \<Rightarrow> Some \<lparr> up_disabled = (currentPath s = ''''),
                         shown_path = currentPath s, items = cs \<rparr>)"

definition render_file :: "RepoContentsResponse \<Rightarrow> file_view option" where
  "render_file r =
     (case file_content r of
        None \<Rightarrow> None
      | Some c \<Rightarrow> Some \<lparr> file_name = name_content c, file_size = size_content c,
                        file_text = truthy (content c) \<rparr>)"

definition render_rest :: "Home \<Rightarrow> card_view option \<Rightarrow> page" where
  "render_rest s c =
     \<lparr> submit_disabled = loading s,
       banner = truthy (Some (error s)),
       card = c,
       spinner_analysis = loadingAnalysis s,
       spinner_fuzzing = loadingFuzzing s,
       fuzz_panel = map_option render_fuzzing (fuzzingResult s),
       analysis_panel = map_option render_analysis (analysisResult s),
       spinner_contents = loadingContents s,
       listing = (case contentsResult s of None \<Rightarrow> None | Some r \<Rightarrow> render_listing s r),
       file_panel = (case contentsResult s of None \<Rightarrow> None | Some r \<Rightarrow> render_file r) \<rparr>"

definition render :: "Home \<Rightarrow> page option" where
  "render s =
     (case result s of
        None \<Rightarrow> Some (render_rest s None)
      | Some r \<Rightarrow>
          (case repo r of
             None \<Rightarrow> None
           | Some g \<Rightarrow> Some (render_rest s (Some (render_card s r g)))))"

subsection \<open>The events the page accepts\<close>

text \<open>
  A handler runs only through a control that is on the page and not disabled. The form
  has a \<^verbatim>\<open>required\<close> URL field, so it is not submitted with an empty URL. A click on a
  listed directory navigates into it; a click on a file opens a window and leaves the
  state alone. The timeout field is a number input whose \<^verbatim>\<open>onChange\<close> stores whatever
  number was typed, here a whole number, with no clamping to the field's bounds.
\<close>

definition actions_offered :: "Home \<Rightarrow> actions_view option" where
  "actions_offered s =
     (case render s of
        None \<Rightarrow> None
      | Some p \<Rightarrow> (case card p of None \<Rightarrow> None | Some c \<Rightarrow> card_actions c))"

definition listing_offered :: "Home \<Rightarrow> listing_view option" where
  "listing_offered s = (case render s of None \<Rightarrow> None | Some p \<Rightarrow> listing p)"

definition onSubmit :: "Home \<Rightarrow> Home \<times> request list" where
  "onSubmit s =
     (case render s of
        None \<Rightarrow> (s, [])
      | Some p \<Rightarrow> if submit_disabled p \<or> repoUrl s = '''' then (s, []) else handleSubmit s)"

definition onClick_analyzeCode :: "Home \<Rightarrow> Home \<times> request list" where
  "onClick_analyzeCode s =
     (case actions_offered s of
        None \<Rightarrow> (s, [])
      | Some a \<Rightarrow> if analyze_disabled a then (s, []) else analyzeCode s)"

definition onClick_runFuzzingTests :: "Home \<Rightarrow> Home \<times> request list" where
  "onClick_runFuzzingTests s =
     (case actions_offered s of
        None \<Rightarrow> (s, [])
      | Some a \<Rightarrow> if fuzz_disabled a then (s, []) else runFuzzingTests s)"

definition onClick_navigateUp :: "Home \<Rightarrow> Home \<times> request list" where
  "onClick_navigateUp s =
     (case listing_offered s of
        None \<Rightarrow> (s, [])
      | Some l \<Rightarrow> if up_disabled l then (s, []) else navigateUp s)"

definition onClick_item :: "GitHubContent \<Rightarrow> Home \<Rightarrow> Home \<times> request list" where
  "onClick_item item s =
     (case listing_offered s of
        None \<Rightarrow> (s, [])
      | Some l \<Rightarrow>
          if List.member (items l) item \<and> content_type item = ''dir''
          then navigateToPath (path_content item) s
          else (s, []))"

definition onChange_repoUrl :: "string \<Rightarrow> Home \<Rightarrow> Home" where
  "onChange_repoUrl v s = s\<lparr>repoUrl := v\<rparr>"

definition onChange_instructionName :: "string \<Rightarrow> Home \<Rightarrow> Home" where
  "onChange_instructionName v s = s\<lparr>instructionName := v\<rparr>"

definition onChange_timeoutSeconds :: "int \<Rightarrow> Home \<Rightarrow> Home" where
  "onChange_timeoutSeconds v s = s\<lparr>timeoutSeconds := v\<rparr>"

section \<open>Report logging\<close>

subsection \<open>SHA-256\<close>

text \<open>
  Modelled from the spec: the content hash of a report, which the backend computes in
  code that is not among the sources and which a client recomputes on its own. It is
  SHA-256 as FIPS 180-4 defines it, over the bytes of the report, on 32-bit words, written
  as 64 lowercase hexadecimal digits.
\<close>

type_synonym u8 = "8 word"
type_synonym u32 = "32 word"

definition rotr :: "nat \<Rightarrow> u32 \<Rightarrow> u32" where
  "rotr n x = drop_bit n x OR push_bit (32 - n) x"

definition Ch :: "u32 \<Rightarrow> u32 \<Rightarrow> u32 \<Rightarrow> u32" where
  "Ch x y z = (x AND y) XOR (NOT x AND z)"

definition Maj :: "u32 \<Rightarrow> u32 \<Rightarrow> u32 \<Rightarrow> u32" where
  "Maj x y z = (x AND y) XOR (x AND z) XOR (y AND z)"

definition Sigma0 :: "u32 \<Rightarrow> u32" where
  "Sigma0 x = rotr 2 x XOR rotr 13 x XOR rotr 22 x"

definition Sigma1 :: "u32 \<Rightarrow> u32" where
  "Sigma1 x = rotr 6 x XOR rotr 11 x XOR rotr 25 x"

definition sigma0 :: "u32 \<Rightarrow> u32" where
  "sigma0 x = rotr 7 x XOR rotr 18 x XOR drop_bit 3 x"

definition sigma1 :: "u32 \<Rightarrow> u32" where
  "sigma1 x = rotr 17 x XOR rotr 19 x XOR drop_bit 10 x"

text \<open>
  The round constants (the first 32 bits of the fractional parts of the cube roots of the
  first 64 primes) and the initial hash value (likewise for the square roots of the
  first 8 primes), in decimal.
\<close>

definition K :: "u32 list" where
  "K = [1116352408, 1899447441, 3049323471, 3921009573, 961987163, 1508970993,
        2453635748, 2870763221, 3624381080, 310598401, 607225278, 1426881987,
        1925078388, 2162078206, 2614888103, 3248222580, 3835390401, 4022224774,
        264347078, 604807628, 770255983, 1249150122, 1555081692, 1996064986,
        2554220882, 2821834349, 2952996808, 3210313671, 3336571891, 3584528711,
        113926993, 338241895, 666307205, 773529912, 1294757372, 1396182291,
        1695183700, 1986661051, 2177026350, 2456956037, 2730485921, 2820302411,
        3259730800, 3345764771, 3516065817, 3600352804, 4094571909, 275423344,
        430227734, 506948616, 659060556, 883997877, 958139571, 1322822218,
        1537002063, 1747873779, 1955562222, 2024104815, 2227730452, 2361852424,
        2428436474, 2756734187, 3204031479, 3329325298]"

definition H0 :: "u32 list" where
  "H0 = [1779033703, 3144134277, 1013904242, 2773480762,
         1359893119, 2600822924, 528734635, 1541459225]"

definition be64 :: "64 word \<Rightarrow> u8 list" where
  \<comment> \<open>a length as eight bytes, most significant first\<close>
  "be64 n = map (\<lambda>i. ucast (drop_bit (8 * (7 - i)) n)) [0 ..< 8]"

definition pad :: "u8 list \<Rightarrow> u8 list" where
  "pad bs =
     bs @ [128] @ replicate ((64 - (length bs + 9) mod 64) mod 64) 0
        @ be64 (of_nat (8 * length bs))"

fun be32 :: "u8 list \<Rightarrow> u32 list" where
  "be32 (a # b # c # d # bs) =
     (push_bit 24 (ucast a) OR push_bit 16 (ucast b) OR push_bit 8 (ucast c) OR ucast d)
       # be32 bs"
| "be32 bs = []"

fun schedule :: "nat \<Rightarrow> u32 list \<Rightarrow> u32 list" where
  "schedule 0 w = []"
| "schedule (Suc n) w =
     (case w of
        [] \<Rightarrow> []
      | w0 # ws \<Rightarrow> w0 # schedule n (ws @ [sigma1 (w ! 14) + w ! 9 + sigma0 (w ! 1) + w0]))"

fun round_sha :: "u32 list \<Rightarrow> u32 \<times> u32 \<Rightarrow> u32 list" where
  "round_sha [a, b, c, d, e, f, g, h] (k, w) =
     (let T1 = h + Sigma1 e + Ch e f g + k + w;
          T2 = Sigma0 a + Maj a b c
      in [T1 + T2, a, b, c, d + T1, e, f, g])"
| "round_sha v kw = v"

definition compress :: "u32 list \<Rightarrow> u32 list \<Rightarrow> u32 list" where
  "compress hs block = map2 (+) hs (foldl round_sha hs (zip K (schedule 64 block)))"

fun blocks :: "u32 list \<Rightarrow> u32 list list" where
  "blocks (w0 # w1 # w2 # w3 # w4 # w5 # w6 # w7 # w8 # w9 # w10 # w11 # w12 # w13
           # w14 # w15 # ws) =
     [w0, w1, w2, w3, w4, w5, w6, w7, w8, w9, w10, w11, w12, w13, w14, w15] # blocks ws"
| "blocks ws = []"

definition sha256 :: "string \<Rightarrow> u32 list" where
  "sha256 s = foldl compress H0 (blocks (be32 (pad (map of_char s))))"

definition hex_digit :: "nat \<Rightarrow> char" where
  "hex_digit n = (if n < 10 then char_of (48 + n) else char_of (87 + n))"

definition hex32 :: "u32 \<Rightarrow> string" where
  "hex32 w = map (\<lambda>i. hex_digit (unat (drop_bit (4 * (7 - i)) w AND 15))) [0 ..< 8]"

definition sha256_hex :: "string \<Rightarrow> string" where
  "sha256_hex s = concat (map hex32 (sha256 s))"

subsection \<open>\<^verbatim>\<open>POST /api/log-report\<close>\<close>

record LogReportResponse =
  success_log :: bool
  message_log :: string
  transaction_signature :: string
  hash :: string

text \<open>
  Modelled from the spec: the backend handler of \<^verbatim>\<open>/api/log-report\<close>, which is not
  among the sources. It hashes the report content as submitted, with no normalisation,
  stores the hash on the ledger and returns the transaction signature and the hash, a
  lowercase hexadecimal string. The ledger is a parameter: given the hash it returns the
  signature of the transaction, or nothing when the transaction fails, and then no
  attestation is returned.
\<close>

definition logReport :: "(string \<Rightarrow> string option) \<Rightarrow> string \<Rightarrow> LogReportResponse option" where
  "logReport ledger report_content =
     (let h = sha256_hex report_content
      in case ledger h of
           None \<Rightarrow> None
         | Some signature \<Rightarrow>
             Some \<lparr> success_log = True, message_log = ''Report logged successfully'',
                    transaction_signature = signature, hash = h \<rparr>)"

section \<open>A session on an example repository\<close>

text \<open>
  Concrete values for the closed theorems below: the repository of the scenario in the
  specification, the responses of the service, and the states the page reaches with them.
  The body text of a response is abbreviated to \<open>{...}\<close>: the handlers test it for
  blankness only, and what \<^verbatim>\<open>JSON.parse\<close> makes of it is the field \<open>parsed\<close>.
\<close>

definition vault_url :: string where
  "vault_url = ''https://github.com/acme/vault''"

definition vault :: GitHubRepo where
  "vault = \<lparr> id_repo = 1, name = ''vault'', full_name = ''acme/vault'',
      description = None, html_url = ''https://github.com/acme/vault'',
      stargazers_count = 42, forks_count = 7, open_issues_count = 3,
      owner_login = ''acme'', owner_avatar_url = None, language = Some ''Rust'',
      created_at = ''2024-01-01T00:00:00Z'', updated_at = ''2024-06-01T00:00:00Z'' \<rparr>"

definition entry :: "string \<Rightarrow> string \<Rightarrow> GitHubContent" where
  "entry kind p = \<lparr> name_content = p, path_content = p, content_type = kind,
      size_content = None, html_url_content = ''https://github.com/acme/vault/tree/main/'' @ p,
      download_url = None, content = None, encoding = None, sha = ''0f3a'',
      url = ''https://api.github.com/repos/acme/vault/contents/'' @ p \<rparr>"

definition listing_of :: "string \<Rightarrow> GitHubContent list \<Rightarrow> RepoContentsResponse response" where
  "listing_of p cs = \<lparr> status = 200, body = ''{...}'',
      parsed = Inr \<lparr> success_contents = True, message_contents = ''Contents retrieved'',
        contents = Some cs, file_content = None, repo_url = vault_url, path = p \<rparr> \<rparr>"

definition ingestion :: "nat \<Rightarrow> bool \<Rightarrow> string \<Rightarrow> GitHubRepo option \<Rightarrow> bool option
    \<Rightarrow> RepoIngestionResponse response" where
  "ingestion code succ msg g anchor = \<lparr> status = code, body = ''{...}'',
      parsed = Inr \<lparr> success_ingest = succ, message_ingest = msg, repo = g,
        is_anchor_project = anchor \<rparr> \<rparr>"

definition analysis :: "bool \<Rightarrow> string \<Rightarrow> CodeAnalysisResponse response" where
  "analysis succ msg = \<lparr> status = 200, body = ''{...}'',
      parsed = Inr \<lparr> success_analysis = succ, message_analysis = msg, bugs = Some [] \<rparr> \<rparr>"

definition overflow_found :: FuzzingResponse where
  "overflow_found = \<lparr> success_fuzz = True, message_fuzz = ''Fuzzing completed'',
      errors = Some [''integer overflow at line 57''], test_file = None,
      execution_time_ms = Some 4200 \<rparr>"

definition typed :: Home where
  \<comment> \<open>the fresh page with the URL typed into the form\<close>
  "typed = onChange_repoUrl vault_url initial"

definition submitted :: Home where
  "submitted = fst (onSubmit typed)"

definition browsing :: Home where
  \<comment> \<open>the repository was accepted and its root listing has arrived\<close>
  "browsing =
     fetchRepoContents_done vault_url ''''
       (Resolved (listing_of '''' [entry ''dir'' ''programs'', entry ''dir'' ''tests'',
                                  entry ''file'' ''Anchor.toml'']))
       (fst (handleSubmit_done vault_url
          (Resolved (ingestion 200 True ''Repository ingested'' (Some vault) (Some True)))
          submitted))"

definition fuzzed :: Home where
  \<comment> \<open>a fuzz run on the accepted repository has reported an issue\<close>
  "fuzzed =
     runFuzzingTests_done (Resolved \<lparr> status = 200, body = ''{...}'', parsed = Inr overflow_found \<rparr>)
       (fst (onClick_runFuzzingTests browsing))"

definition rejected_anchor :: Home where
  \<comment> \<open>a 2xx ingestion response that reports failure for an Anchor project\<close>
  "rejected_anchor =
     fst (handleSubmit_done vault_url
        (Resolved (ingestion 200 False ''Repository could not be indexed'' (Some vault) (Some True)))
        submitted)"

definition analysing :: Home where
  \<comment> \<open>the analysis of the accepted repository has been started\<close>
  "analysing = fst (onClick_analyzeCode browsing)"

section \<open>Facts about the example session\<close>

lemmas handler_defs =
  fetchRepoContents_def fetchRepoContents_try_def fetchRepoContents_done_def
  navigateToPath_def navigateUp_def handleSubmit_def handleSubmit_done_def
  analyzeCode_def analyzeCode_try_def analyzeCode_done_def
  runFuzzingTests_def runFuzzingTests_try_def runFuzzingTests_done_def
  ok_def or_else_def

lemmas page_defs =
  render_def render_rest_def render_card_def render_fuzzing_def render_analysis_def
  render_listing_def render_file_def truthy_def actions_offered_def listing_offered_def
  onSubmit_def onClick_analyzeCode_def onClick_runFuzzingTests_def onClick_navigateUp_def
  onClick_item_def onChange_repoUrl_def onChange_instructionName_def
  onChange_timeoutSeconds_def

lemmas example_defs =
  vault_url_def ingestion_def listing_of_def analysis_def initial_def

lemma submitted_eq:
  "submitted = initial\<lparr>repoUrl := vault_url, loading := True\<rparr>"
  by (simp add: submitted_def typed_def onSubmit_def onChange_repoUrl_def render_def
      render_rest_def handleSubmit_def initial_def vault_url_def)

lemma browsing_eq:
  "browsing = initial\<lparr>repoUrl := vault_url,
     result := Some \<lparr> success_ingest = True, message_ingest = ''Repository ingested'',
       repo = Some vault, is_anchor_project = Some True \<rparr>,
     contentsResult := Some \<lparr> success_contents = True,
       message_contents = ''Contents retrieved'',
       contents = Some [entry ''dir'' ''programs'', entry ''dir'' ''tests'',
                        entry ''file'' ''Anchor.toml''],
       file_content = None, repo_url = vault_url, path = '''' \<rparr>\<rparr>"
  by (simp add: browsing_def submitted_eq handleSubmit_done_def fetchRepoContents_def
      fetchRepoContents_done_def fetchRepoContents_try_def ingestion_def listing_of_def
      ok_def trim_def white_space_def initial_def)

lemma fuzzed_eq: "fuzzed = browsing\<lparr>fuzzingResult := Some overflow_found\<rparr>"
  by (simp add: fuzzed_def browsing_eq handler_defs page_defs example_defs)

section \<open>Up-navigation\<close>

lemma split_not_Nil: "split c s \<noteq> []"
  by (induction s) (auto split: list.splits)

lemma join_split: "join c (split c s) = s"
proof (induction s)
  case Nil
  show ?case by simp
next
  case (Cons x xs)
  obtain p ps where ps: "split c xs = p # ps"
    using split_not_Nil [of c xs] by (cases "split c xs") auto
  show ?case
  proof (cases "x = c")
    case True
    with Cons ps show ?thesis by simp
  next
    case False
    with Cons ps show ?thesis by (cases ps) auto
  qed
qed

lemma split_no_separator: "seg \<in> set (split c s) \<Longrightarrow> c \<notin> set seg"
proof (induction s arbitrary: seg)
  case Nil
  then show ?case by simp
next
  case (Cons x xs)
  obtain p ps where ps: "split c xs = p # ps"
    using split_not_Nil [of c xs] by (cases "split c xs") auto
  show ?case
  proof (cases "x = c")
    case True
    with Cons show ?thesis by auto
  next
    case False
    with Cons.prems ps have "seg = x # p \<or> seg \<in> set ps" by auto
    with Cons.IH ps False show ?thesis by auto
  qed
qed

lemma join_snoc: "xs \<noteq> [] \<Longrightarrow> join c (xs @ [y]) = join c xs @ c # y"
  by (induction c xs rule: join.induct) auto

lemma parentPath_cases:
  "(CHR ''/'' \<notin> set p \<and> parentPath p = '''' \<and> last (split CHR ''/'' p) = p) \<or>
   p = parentPath p @ ''/'' @ last (split CHR ''/'' p)"
proof -
  let ?segs = "split CHR ''/'' p"
  have ne: "?segs \<noteq> []" by (rule split_not_Nil)
  then have segs: "?segs = butlast ?segs @ [last ?segs]" by simp
  have p: "p = join CHR ''/'' (butlast ?segs @ [last ?segs])"
    using join_split [of "CHR ''/''" p] segs by simp
  have nosep: "CHR ''/'' \<notin> set (last ?segs)"
    using ne split_no_separator [of "last ?segs" "CHR ''/''" p] by simp
  show ?thesis
  proof (cases "butlast ?segs = []")
    case True
    with p have "p = last ?segs" by simp
    with nosep True show ?thesis by (simp add: parentPath_def pop_def)
  next
    case False
    with p have "p = join CHR ''/'' (butlast ?segs) @ CHR ''/'' # last ?segs"
      by (simp add: join_snoc)
    then show ?thesis by (simp add: parentPath_def pop_def)
  qed
qed

lemma last_segment_no_slash: "CHR ''/'' \<notin> set (last (split CHR ''/'' p))"
  using split_not_Nil [of "CHR ''/''" p]
    split_no_separator [of "last (split CHR ''/'' p)" "CHR ''/''" p]
  by simp

text \<open>
  C8. Up-navigation from a path that is not the root removes exactly the last
  \<open>/\<close>-separated segment (the part after the last slash, or the whole path when it has no
  slash) and issues a listing request for the parent path that remains; from the root
  (the empty path) it issues no request and leaves the state as it is.
\<close>

theorem navigateUp_pops_last_segment:
  "(currentPath s = '''' \<longrightarrow> navigateUp s = (s, [])) \<and>
   (currentPath s \<noteq> '''' \<longrightarrow>
      (\<exists>parent segment.
         CHR ''/'' \<notin> set segment \<and>
         (currentPath s = parent @ ''/'' @ segment \<or>
          currentPath s = segment \<and> parent = '''') \<and>
         navigateUp s =
           (s\<lparr>loadingContents := True, error := ''''\<rparr>,
            [RepoContents (repoUrl s) (if parent = '''' then None else Some parent)])))"
proof (intro conjI impI)
  assume "currentPath s = ''''"
  then show "navigateUp s = (s, [])" by (simp add: navigateUp_def)
next
  assume ne: "currentPath s \<noteq> ''''"
  let ?p = "currentPath s"
  let ?parent = "parentPath ?p" and ?seg = "last (split CHR ''/'' ?p)"
  have 1: "CHR ''/'' \<notin> set ?seg" by (rule last_segment_no_slash)
  have 2: "?p = ?parent @ ''/'' @ ?seg \<or> ?p = ?seg \<and> ?parent = ''''"
    using parentPath_cases [of ?p] by auto
  have 3: "navigateUp s =
      (s\<lparr>loadingContents := True, error := ''''\<rparr>,
       [RepoContents (repoUrl s) (if ?parent = '''' then None else Some ?parent)])"
    using ne by (simp add: navigateUp_def fetchRepoContents_def)
  from 1 2 3 show "\<exists>parent segment.
         CHR ''/'' \<notin> set segment \<and>
         (currentPath s = parent @ ''/'' @ segment \<or>
          currentPath s = segment \<and> parent = '''') \<and>
         navigateUp s =
           (s\<lparr>loadingContents := True, error := ''''\<rparr>,
            [RepoContents (repoUrl s) (if parent = '''' then None else Some parent)])"
    by blast
qed

theorem navigateUp_pops_last_segment_witness:
  "navigateUp browsing = (browsing, []) \<and>
   (\<exists>parent segment.
      CHR ''/'' \<notin> set segment \<and>
      (''programs/vault/src'' = parent @ ''/'' @ segment \<or>
       ''programs/vault/src'' = segment \<and> parent = '''') \<and>
      navigateUp (browsing\<lparr>currentPath := ''programs/vault/src''\<rparr>) =
        (browsing\<lparr>currentPath := ''programs/vault/src'', loadingContents := True,
                   error := ''''\<rparr>,
         [RepoContents vault_url (if parent = '''' then None else Some parent)]))"
  using navigateUp_pops_last_segment [of browsing]
    navigateUp_pops_last_segment [of "browsing\<lparr>currentPath := ''programs/vault/src''\<rparr>"]
  by (simp add: browsing_eq initial_def)

section \<open>Failed listings\<close>

text \<open>
  C10. When a listing request fails (the fetch is rejected, the status is not 2xx, the
  body is empty or blank, or the body is not JSON), the current path keeps the value it had:
  neither the start of the request nor the handling of the failed response changes it.
\<close>

theorem fetchRepoContents_failure_keeps_currentPath:
  assumes "f = Rejected msg \<or>
           (\<exists>r. f = Resolved r \<and>
                (\<not> ok r \<or> body r = '''' \<or> trim (body r) = '''' \<or> isl (parsed r)))"
  shows "currentPath (fetchRepoContents_done u p f (fst (fetchRepoContents u p s))) = currentPath s
       \<and> currentPath (fetchRepoContents_done u p f s) = currentPath s"
proof -
  from assms have "isl (fetchRepoContents_try f)"
    by (auto simp: fetchRepoContents_try_def split: sum.splits)
  then show ?thesis
    by (auto simp: fetchRepoContents_done_def fetchRepoContents_def split: sum.splits)
qed

theorem fetchRepoContents_failure_keeps_currentPath_witness:
  "currentPath (fetchRepoContents_done vault_url ''programs''
      (Resolved \<lparr> status = 500, body = ''Internal Server Error'',
                   parsed = Inl ''Unexpected token I in JSON at position 0'' \<rparr>)
      (fst (fetchRepoContents vault_url ''programs''
         (browsing\<lparr>currentPath := ''tests''\<rparr>)))) = ''tests''"
  using fetchRepoContents_failure_keeps_currentPath
    [of "Resolved \<lparr> status = 500, body = ''Internal Server Error'',
                     parsed = Inl ''Unexpected token I in JSON at position 0'' \<rparr>"
        "''''" vault_url "''programs''" "browsing\<lparr>currentPath := ''tests''\<rparr>"]
  by (simp add: ok_def)


section \<open>Results of unrelated operations\<close>

text \<open>
  C9. A failure of one operation leaves the stored result of the other alone: when a fuzz
  run fails (the fetch is rejected, the status is not 2xx, or the body is not JSON), the
  analysis result is what it was, and when an analysis fails (rejected fetch, status not
  2xx, empty or blank body, body not JSON), the fuzz result is what it was. Starting either
  operation does not touch the other's result either, and the failure itself is recorded
  in the error cell. Listing requests and the completion of an ingestion leave both
  results alone as well; the submission of a new repository discards the analysis result.
\<close>

theorem failure_keeps_unrelated_result:
  "analysisResult (fst (runFuzzingTests s)) = analysisResult s \<and>
   (f = Rejected msg \<or> (\<exists>r. f = Resolved r \<and> (\<not> ok r \<or> isl (parsed r))) \<longrightarrow>
      analysisResult (runFuzzingTests_done f s) = analysisResult s \<and>
      fuzzingResult (runFuzzingTests_done f s) = fuzzingResult s \<and>
      error (runFuzzingTests_done f s) \<noteq> '''') \<and>
   fuzzingResult (fst (analyzeCode s)) = fuzzingResult s \<and>
   (g = Rejected msg' \<or>
    (\<exists>r. g = Resolved r \<and>
         (\<not> ok r \<or> body r = '''' \<or> trim (body r) = '''' \<or> isl (parsed r))) \<longrightarrow>
      fuzzingResult (analyzeCode_done g s) = fuzzingResult s \<and>
      error (analyzeCode_done g s) \<noteq> '''') \<and>
   analysisResult (fst (fetchRepoContents u p s)) = analysisResult s \<and>
   fuzzingResult (fst (fetchRepoContents u p s)) = fuzzingResult s \<and>
   analysisResult (fetchRepoContents_done u p h s) = analysisResult s \<and>
   fuzzingResult (fetchRepoContents_done u p h s) = fuzzingResult s \<and>
   analysisResult (fst (handleSubmit_done u k s)) = analysisResult s \<and>
   fuzzingResult (fst (handleSubmit_done u k s)) = fuzzingResult s \<and>
   analysisResult (fst (handleSubmit s)) = None"
proof (intro conjI impI)
  show "analysisResult (fst (runFuzzingTests s)) = analysisResult s"
    by (simp add: runFuzzingTests_def)
  show "fuzzingResult (fst (analyzeCode s)) = fuzzingResult s"
    by (simp add: analyzeCode_def)
  show "analysisResult (fst (fetchRepoContents u p s)) = analysisResult s"
    and "fuzzingResult (fst (fetchRepoContents u p s)) = fuzzingResult s"
    by (simp_all add: fetchRepoContents_def)
  show "analysisResult (fetchRepoContents_done u p h s) = analysisResult s"
    and "fuzzingResult (fetchRepoContents_done u p h s) = fuzzingResult s"
    by (simp_all add: fetchRepoContents_done_def split: sum.splits)
  show "analysisResult (fst (handleSubmit_done u k s)) = analysisResult s"
    and "fuzzingResult (fst (handleSubmit_done u k s)) = fuzzingResult s"
    by (simp_all add: handleSubmit_done_def fetchRepoContents_def
        split: fetched.splits sum.splits)
  show "analysisResult (fst (handleSubmit s)) = None"
    by (simp add: handleSubmit_def)
next
  assume "f = Rejected msg \<or> (\<exists>r. f = Resolved r \<and> (\<not> ok r \<or> isl (parsed r)))"
  then have "isl (runFuzzingTests_try f)"
    by (auto simp: runFuzzingTests_try_def)
  then obtain m where m: "runFuzzingTests_try f = Inl m"
    by (auto simp: isl_def)
  show "analysisResult (runFuzzingTests_done f s) = analysisResult s"
    and "fuzzingResult (runFuzzingTests_done f s) = fuzzingResult s"
    and "error (runFuzzingTests_done f s) \<noteq> ''''"
    using m by (simp_all add: runFuzzingTests_done_def or_else_def)
next
  assume "g = Rejected msg' \<or>
    (\<exists>r. g = Resolved r \<and>
         (\<not> ok r \<or> body r = '''' \<or> trim (body r) = '''' \<or> isl (parsed r)))"
  then have "isl (analyzeCode_try g)"
    by (auto simp: analyzeCode_try_def split: sum.splits)
  then obtain m where m: "analyzeCode_try g = Inl m"
    by (auto simp: isl_def)
  show "fuzzingResult (analyzeCode_done g s) = fuzzingResult s"
    and "error (analyzeCode_done g s) \<noteq> ''''"
    using m by (simp_all add: analyzeCode_done_def or_else_def)
qed

theorem failure_keeps_unrelated_result_witness:
  "analysisResult (runFuzzingTests_done (Rejected ''Failed to fetch'')
      (fuzzed\<lparr>analysisResult := Some \<lparr> success_analysis = True,
          message_analysis = ''Analysis complete'', bugs = Some [] \<rparr>\<rparr>)) =
     Some \<lparr> success_analysis = True, message_analysis = ''Analysis complete'', bugs = Some [] \<rparr> \<and>
   fuzzingResult (analyzeCode_done
      (Resolved \<lparr> status = 502, body = ''Bad Gateway'', parsed = Inl ''Unexpected token B'' \<rparr>)
      fuzzed) = Some overflow_found"
  using failure_keeps_unrelated_result
    [of "fuzzed\<lparr>analysisResult := Some \<lparr> success_analysis = True,
          message_analysis = ''Analysis complete'', bugs = Some [] \<rparr>\<rparr>"
        "Rejected ''Failed to fetch''" "''Failed to fetch''"
        "Resolved \<lparr> status = 502, body = ''Bad Gateway'', parsed = Inl ''Unexpected token B'' \<rparr>"
        "''''"]
    failure_keeps_unrelated_result
    [of fuzzed "Rejected ''Failed to fetch''" "''Failed to fetch''"
        "Resolved \<lparr> status = 502, body = ''Bad Gateway'', parsed = Inl ''Unexpected token B'' \<rparr>"
        "''''"]
  by (simp add: ok_def fuzzed_eq)

section \<open>Out-of-order listing responses\<close>

text \<open>
  C4, as stated, fails. The user opens the directory \<open>programs\<close> and then, before the
  response arrives, the directory \<open>tests\<close>; both requests are sent. The response for
  \<open>tests\<close> arrives first and the one for \<open>programs\<close> after it: the page ends on
  \<open>programs\<close>, the earlier request.
\<close>

theorem stale_listing_overwrites:
  "onClick_item (entry ''dir'' ''programs'') browsing =
     (browsing\<lparr>loadingContents := True\<rparr>, [RepoContents vault_url (Some ''programs'')]) \<and>
   onClick_item (entry ''dir'' ''tests'') (browsing\<lparr>loadingContents := True\<rparr>) =
     (browsing\<lparr>loadingContents := True\<rparr>, [RepoContents vault_url (Some ''tests'')]) \<and>
   currentPath
     (fetchRepoContents_done vault_url ''programs'' (Resolved (listing_of ''programs'' []))
        (fetchRepoContents_done vault_url ''tests'' (Resolved (listing_of ''tests'' []))
           (browsing\<lparr>loadingContents := True\<rparr>))) = ''programs'' \<and>
   map_option path (contentsResult
     (fetchRepoContents_done vault_url ''programs'' (Resolved (listing_of ''programs'' []))
        (fetchRepoContents_done vault_url ''tests'' (Resolved (listing_of ''tests'' []))
           (browsing\<lparr>loadingContents := True\<rparr>)))) = Some ''programs''"
  by (simp add: browsing_eq handler_defs page_defs example_defs entry_def trim_def
      white_space_def)

text \<open>
  C4, amended. There is no guard against stale responses: every listing response that
  parses is committed when it arrives. After \<open>list(r, a)\<close> then \<open>list(r, b)\<close>, if the
  response for \<open>a\<close> resolves after the one for \<open>b\<close> and parses, the final listing and
  current path are those of \<open>a\<close>, whatever the response for \<open>b\<close> was.
\<close>

theorem last_resolved_listing_wins:
  assumes "fa = Resolved r" and "ok r" and "trim (body r) \<noteq> ''''" and "parsed r = Inr da"
  shows "currentPath (fetchRepoContents_done u a fa (fetchRepoContents_done u b fb
            (fst (fetchRepoContents u b (fst (fetchRepoContents u a s)))))) = a \<and>
         contentsResult (fetchRepoContents_done u a fa (fetchRepoContents_done u b fb
            (fst (fetchRepoContents u b (fst (fetchRepoContents u a s)))))) = Some da"
proof -
  from assms(3) have "body r \<noteq> ''''" by (auto simp: trim_def)
  with assms have "fetchRepoContents_try fa = Inr da"
    by (simp add: fetchRepoContents_try_def)
  then show ?thesis by (simp add: fetchRepoContents_done_def)
qed

theorem last_resolved_listing_wins_witness:
  "currentPath (fetchRepoContents_done vault_url ''programs''
      (Resolved (listing_of ''programs'' []))
      (fetchRepoContents_done vault_url ''tests'' (Resolved (listing_of ''tests'' []))
         (fst (fetchRepoContents vault_url ''tests''
            (fst (fetchRepoContents vault_url ''programs'' browsing)))))) = ''programs''"
  using last_resolved_listing_wins
    [of "Resolved (listing_of ''programs'' [])" "listing_of ''programs'' []"
        "\<lparr> success_contents = True, message_contents = ''Contents retrieved'',
           contents = Some [], file_content = None, repo_url = vault_url,
           path = ''programs'' \<rparr>"
        vault_url "''programs''" "''tests''" "Resolved (listing_of ''tests'' [])" browsing]
  by (simp add: listing_of_def ok_def trim_def white_space_def)

section \<open>Gating on the ingestion result\<close>

text \<open>
  C3. The claim is that after an ingestion result with \<^verbatim>\<open>success\<close> false or
  \<^verbatim>\<open>is_anchor_project\<close> false, neither listing nor analysis nor fuzzing is invoked for
  that repository. The completion of the submission checks both fields before it starts
  the first listing, and sends none here. The page renders the analysis and fuzzing
  buttons on \<^verbatim>\<open>is_anchor_project\<close> alone: a response with status 200 that says
  \<^verbatim>\<open>success: false\<close> and \<^verbatim>\<open>is_anchor_project: true\<close> is stored, both buttons are on
  the page and enabled, and a click on either sends its request for that repository.
\<close>

theorem unsuccessful_ingestion_still_offers_actions:
  "handleSubmit_done vault_url
     (Resolved (ingestion 200 False ''Repository could not be indexed'' (Some vault) (Some True)))
     submitted = (rejected_anchor, []) \<and>
   result rejected_anchor =
     Some \<lparr> success_ingest = False, message_ingest = ''Repository could not be indexed'',
            repo = Some vault, is_anchor_project = Some True \<rparr> \<and>
   actions_offered rejected_anchor =
     Some \<lparr> analyze_disabled = False, instruction_value = ''increment'',
            timeout_value = 60, fuzz_disabled = False \<rparr> \<and>
   snd (onClick_analyzeCode rejected_anchor) = [AnalyzeCode vault_url] \<and>
   snd (onClick_runFuzzingTests rejected_anchor) = [FuzzTest vault_url ''increment'' 60]"
  by (simp add: rejected_anchor_def submitted_eq handler_defs page_defs example_defs)

section \<open>Clean scans and failed scans\<close>

text \<open>
  C6. The claim is that a successful scan without findings and a failed scan are told
  apart by their success status and message, in the stored result and on the page. The
  stored results differ. The page does not tell them apart: the analysis panel never reads
  \<^verbatim>\<open>success\<close>, and for a failed scan it prints the message over
  \<open>No security issues found! Your code looks good.\<close> An analysis answered with an empty
  body ends with that panel, the same panel as a clean scan that carries the message; and
  a 2xx answer with \<^verbatim>\<open>success: false\<close> and no findings gives the same page as one with
  \<^verbatim>\<open>success: true\<close> and the same message.
\<close>

theorem failed_scan_rendered_like_clean_scan:
  "analysisResult (analyzeCode_done (Resolved \<lparr> status = 200, body = '''',
       parsed = Inl ''Unexpected end of JSON input'' \<rparr>) analysing) =
     Some \<lparr> success_analysis = False, message_analysis = ''Empty response from server'',
            bugs = Some [] \<rparr> \<and>
   map_option analysis_panel
     (render (analyzeCode_done (Resolved \<lparr> status = 200, body = '''',
         parsed = Inl ''Unexpected end of JSON input'' \<rparr>) analysing)) =
     Some (Some (''Empty response from server'', No_security_issues_found)) \<and>
   map_option analysis_panel
     (render (analyzeCode_done (Resolved (analysis True ''Empty response from server'')) analysing)) =
     Some (Some (''Empty response from server'', No_security_issues_found)) \<and>
   analysisResult (analyzeCode_done (Resolved (analysis True ''Analysis complete'')) analysing) \<noteq>
   analysisResult (analyzeCode_done (Resolved (analysis False ''Analysis complete'')) analysing) \<and>
   render (analyzeCode_done (Resolved (analysis True ''Analysis complete'')) analysing) =
   render (analyzeCode_done (Resolved (analysis False ''Analysis complete'')) analysing) \<and>
   map_option analysis_panel
     (render (analyzeCode_done (Resolved (analysis False ''Analysis complete'')) analysing)) =
     Some (Some (''Analysis complete'', No_security_issues_found))"
  by (simp add: analysing_def browsing_eq handler_defs page_defs example_defs trim_def
      white_space_def)

section \<open>Defects\<close>

text \<open>
  C1. The claim is that a timeout below 1 or above 120 is rejected before any request is
  sent. The handler has no such check: with 500 typed into the timeout field, and with 0,
  a click on the fuzzing button sends the request with that timeout.
\<close>

theorem runFuzzingTests_out_of_range_dispatched:
  "onClick_runFuzzingTests (onChange_timeoutSeconds 500 browsing) =
     (browsing\<lparr>timeoutSeconds := 500, loadingFuzzing := True\<rparr>,
      [FuzzTest vault_url ''increment'' 500]) \<and>
   onClick_runFuzzingTests (onChange_timeoutSeconds 0 browsing) =
     (browsing\<lparr>timeoutSeconds := 0, loadingFuzzing := True\<rparr>,
      [FuzzTest vault_url ''increment'' 0])"
  by (simp add: browsing_eq handler_defs page_defs example_defs)

text \<open>
  C2. The claim is that a new submission clears every derived cell. It clears the listing,
  the path, the analysis result, the ingestion result and the error, but not the fuzz
  result: after the submission the outcome of the earlier fuzz run is still stored.
\<close>

theorem handleSubmit_keeps_fuzzingResult:
  "fuzzingResult fuzzed = Some overflow_found \<and>
   onSubmit fuzzed =
     (fuzzed\<lparr>loading := True, result := None, contentsResult := None\<rparr>,
      [IngestRepo vault_url]) \<and>
   fuzzingResult (fst (onSubmit fuzzed)) = Some overflow_found \<and>
   analysisResult (fst (onSubmit fuzzed)) = None"
  by (simp add: fuzzed_eq browsing_eq handler_defs page_defs example_defs)

text \<open>
  C5. The claim is that a non-2xx ingestion response stores no ingestion result. The
  handler stores the parsed body before it checks the status: a 404 with a JSON body
  ends with that body in the result cell, next to the error. The body has no \<^verbatim>\<open>repo\<close>, so
  the page can no longer be rendered.
\<close>

theorem handleSubmit_stores_error_body:
  "handleSubmit_done vault_url
     (Resolved (ingestion 404 False ''Repository not found'' None None)) submitted =
   (submitted\<lparr>result := Some \<lparr> success_ingest = False,
                  message_ingest = ''Repository not found'', repo = None,
                  is_anchor_project = None \<rparr>,
               error := ''Repository not found'', loading := False\<rparr>, []) \<and>
   render (fst (handleSubmit_done vault_url
     (Resolved (ingestion 404 False ''Repository not found'' None None)) submitted)) = None"
  by (simp add: submitted_eq handler_defs page_defs example_defs)

section \<open>The hash of a logged report\<close>

text \<open>The digest of \<open>abc\<close> is the one FIPS 180-4 gives for it.\<close>

lemma sha256_hex_abc:
  "sha256_hex ''abc'' = ''ba7816bf8f01cfea414140de5dae2223b00361a396177a9cb410ff61f20015ad''"
  by code_simp

text \<open>
  C7. Whenever logging a report returns an attestation, its hash field is the SHA-256
  digest of the report as submitted, in lowercase hexadecimal: the digest a client
  computes on its own from the same bytes. An attestation is returned whenever the ledger
  accepts the transaction.
\<close>

theorem logReport_hash_is_sha256:
  "(logReport ledger s = Some r \<longrightarrow> hash r = sha256_hex s) \<and>
   (ledger (sha256_hex s) = Some signature \<longrightarrow>
      logReport ledger s =
        Some \<lparr> success_log = True, message_log = ''Report logged successfully'',
               transaction_signature = signature, hash = sha256_hex s \<rparr>)"
  by (auto simp: logReport_def Let_def split: option.splits)

theorem logReport_hash_is_sha256_witness:
  "logReport (\<lambda>h. Some ''2id1qvFo47iKXmqKe'') ''abc'' =
     Some \<lparr> success_log = True, message_log = ''Report logged successfully'',
            transaction_signature = ''2id1qvFo47iKXmqKe'',
            hash = ''ba7816bf8f01cfea414140de5dae2223b00361a396177a9cb410ff61f20015ad'' \<rparr> \<and>
   hash \<lparr> success_log = True, message_log = ''Report logged successfully'',
          transaction_signature = ''2id1qvFo47iKXmqKe'',
          hash = ''ba7816bf8f01cfea414140de5dae2223b00361a396177a9cb410ff61f20015ad'' \<rparr> =
     sha256_hex ''abc''"
  using logReport_hash_is_sha256
    [where ledger = "\<lambda>h. Some ''2id1qvFo47iKXmqKe''" and s = "''abc''"
       and signature = "''2id1qvFo47iKXmqKe''"
       and r = "\<lparr> success_log = True, message_log = ''Report logged successfully'',
                  transaction_signature = ''2id1qvFo47iKXmqKe'',
                  hash = ''ba7816bf8f01cfea414140de5dae2223b00361a396177a9cb410ff61f20015ad'' \<rparr>"]
  by (simp add: sha256_hex_abc)

end
